theory Spec2Isabelle
  imports Complex_Main
begin

section \<open>Python values and errors\<close>

text \<open>
  The toolkit is Python. Exceptions are values: every function that can raise returns
  \<open>error + 'a\<close>, with \<open>Inl\<close> carrying the exception. Only the exception classes that
  the modelled functions raise themselves appear. Collaborators that live outside the
  modelled files (the data hub, the trainer, the network model, pandas, joblib, the YAML
  handler) are parameters of the functions that call them and are taken to return.
\<close>

datatype error =
    ValueError string
  | AssertionError
  | IndexError
  | TypeError

text \<open>A Python float: the finite values, the two infinities and NaN.\<close>

datatype pyfloat = Finite real | PosInf | NegInf | NaN

text \<open>The comparison \<^verbatim>\<open>x <= 0\<close> on a float; every comparison with NaN is false.\<close>

fun float_le_zero :: "pyfloat \<Rightarrow> bool" where
  "float_le_zero (Finite r) = (r \<le> 0)"
| "float_le_zero NegInf = True"
| "float_le_zero PosInf = False"
| "float_le_zero NaN = False"

text \<open>Truth value of an \<^verbatim>\<open>Optional[str]\<close>: \<^verbatim>\<open>None\<close> and the empty string are false.\<close>

fun truthy_opt_str :: "string option \<Rightarrow> bool" where
  "truthy_opt_str None = False"
| "truthy_opt_str (Some s) = (s \<noteq> [])"

text \<open>Statement sequencing: the second statement runs only if the first did not raise.\<close>

definition seq :: "error + unit \<Rightarrow> error + 'a \<Rightarrow> error + 'a" where
  "seq a b = (case a of Inl e \<Rightarrow> Inl e | Inr _ \<Rightarrow> b)"

definition raise_if :: "bool \<Rightarrow> error \<Rightarrow> error + unit" where
  "raise_if b e = (if b then Inl e else Inr ())"

section \<open>pretrain/pretrain\_config.py\<close>

record DatasetConfig =
  train_lmdb :: "string option"
  train_path :: "string option"
  valid_path :: "string option"
  data_type :: string
  smiles_column :: string
  valid_lmdb :: "string option"
  dict_path :: "string option"
  remove_hydrogen :: bool
  max_atoms :: int
  noise_type :: string
  noise :: pyfloat
  mask_prob :: pyfloat
  leave_unmasked_prob :: pyfloat
  random_token_prob :: pyfloat
  unimol_style :: bool
  num_conformers :: int

record ModelConfig =
  model_name :: string
  encoder_layers :: int
  encoder_embed_dim :: int
  encoder_ffn_embed_dim :: int
  encoder_attention_heads :: int
  dropout :: pyfloat
  emb_dropout :: pyfloat
  attention_dropout :: pyfloat
  activation_dropout :: pyfloat
  pooler_dropout :: pyfloat
  max_seq_len :: int
  activation_fn :: string
  pooler_activation_fn :: string
  post_ln :: bool
  masked_token_loss :: pyfloat
  masked_coord_loss :: pyfloat
  masked_dist_loss :: pyfloat
  x_norm_loss :: pyfloat
  delta_pair_repr_norm_loss :: pyfloat

record TrainingConfig =
  batch_size :: int
  lr :: pyfloat
  weight_decay :: pyfloat
  epochs :: int
  save_every_n_epoch :: int
  use_amp :: bool
  local_rank :: int
  seed :: int
  resume :: "string option"

record PretrainConfig =
  dataset :: DatasetConfig
  model :: ModelConfig
  training :: TrainingConfig

text \<open>The dataclass defaults.\<close>

definition DatasetConfig_default :: DatasetConfig where
  "DatasetConfig_default =
     \<lparr> train_lmdb = None, train_path = None, valid_path = None, data_type = ''lmdb'',
       smiles_column = ''smi'', valid_lmdb = None, dict_path = None,
       remove_hydrogen = False, max_atoms = 256, noise_type = ''trunc_normal'',
       noise = Finite (1 / 10), mask_prob = Finite (15 / 100),
       leave_unmasked_prob = Finite (1 / 10), random_token_prob = Finite (1 / 10),
       unimol_style = False, num_conformers = 10 \<rparr>"

definition ModelConfig_default :: ModelConfig where
  "ModelConfig_default =
     \<lparr> model_name = ''UniMol'', encoder_layers = 15, encoder_embed_dim = 512,
       encoder_ffn_embed_dim = 2048, encoder_attention_heads = 64,
       dropout = Finite (1 / 10), emb_dropout = Finite (1 / 10),
       attention_dropout = Finite (1 / 10), activation_dropout = Finite 0,
       pooler_dropout = Finite 0, max_seq_len = 512, activation_fn = ''gelu'',
       pooler_activation_fn = ''tanh'', post_ln = False, masked_token_loss = Finite 1,
       masked_coord_loss = Finite 5, masked_dist_loss = Finite 10,
       x_norm_loss = Finite (1 / 100), delta_pair_repr_norm_loss = Finite (1 / 100) \<rparr>"

definition TrainingConfig_default :: TrainingConfig where
  "TrainingConfig_default =
     \<lparr> batch_size = 32, lr = Finite (1 / 10000), weight_decay = Finite (1 / 100),
       epochs = 10, save_every_n_epoch = 1, use_amp = True, local_rank = 0, seed = 42,
       resume = None \<rparr>"

definition PretrainConfig_default :: PretrainConfig where
  "PretrainConfig_default =
     \<lparr> dataset = DatasetConfig_default, model = ModelConfig_default,
       training = TrainingConfig_default \<rparr>"

definition msg_train_lmdb :: string where
  "msg_train_lmdb = ''train_lmdb must be specified when data_type is 'lmdb'.''"

definition msg_train_path :: string where
  "msg_train_path = ''train_path must be specified when data_type is not 'lmdb'.''"

definition msg_encoder_layers :: string where
  "msg_encoder_layers = ''encoder_layers must be a positive integer.''"

definition msg_batch_size :: string where
  "msg_batch_size = ''batch_size must be a positive integer.''"

definition msg_lr :: string where
  "msg_lr = ''Learning rate must be a positive value.''"

text \<open>\<^verbatim>\<open>PretrainConfig.validate\<close>: four statements in sequence, the first raise wins.\<close>

definition validate :: "PretrainConfig \<Rightarrow> error + unit" where
  "validate self =
     seq (if data_type (dataset self) = ''lmdb''
          then raise_if (\<not> truthy_opt_str (train_lmdb (dataset self)))
                 (ValueError msg_train_lmdb)
          else raise_if (\<not> truthy_opt_str (train_path (dataset self)))
                 (ValueError msg_train_path))
    (seq (raise_if (encoder_layers (model self) \<le> 0) (ValueError msg_encoder_layers))
    (seq (raise_if (batch_size (training self) \<le> 0) (ValueError msg_batch_size))
         (raise_if (float_le_zero (lr (training self))) (ValueError msg_lr))))"

text \<open>The outcome of \<open>validate\<close> is one of the two dataset-path errors.\<close>

definition dataset_path_error :: "error + unit \<Rightarrow> bool" where
  "dataset_path_error r =
     (r = Inl (ValueError msg_train_lmdb) \<or> r = Inl (ValueError msg_train_path))"

definition raises :: "error + 'a \<Rightarrow> bool" where
  "raises r = (case r of Inl _ \<Rightarrow> True | Inr _ \<Rightarrow> False)"

text \<open>Configurations used below as concrete inputs.\<close>

definition cfg_lmdb_ok :: PretrainConfig where
  "cfg_lmdb_ok = PretrainConfig_default
     \<lparr> dataset := DatasetConfig_default \<lparr> train_lmdb := Some ''train.lmdb'' \<rparr> \<rparr>"

definition cfg_lmdb_empty :: PretrainConfig where
  "cfg_lmdb_empty = PretrainConfig_default
     \<lparr> dataset := DatasetConfig_default \<lparr> train_lmdb := Some [] \<rparr> \<rparr>"

definition cfg_csv_ok :: PretrainConfig where
  "cfg_csv_ok = PretrainConfig_default
     \<lparr> dataset := DatasetConfig_default
         \<lparr> data_type := ''csv'', train_path := Some ''train.csv'' \<rparr> \<rparr>"

definition cfg_csv_lmdb_only :: PretrainConfig where
  "cfg_csv_lmdb_only = PretrainConfig_default
     \<lparr> dataset := DatasetConfig_default
         \<lparr> data_type := ''csv'', train_lmdb := Some ''train.lmdb'' \<rparr> \<rparr>"

definition cfg_epochs_zero :: PretrainConfig where
  "cfg_epochs_zero = cfg_lmdb_ok \<lparr> training := TrainingConfig_default \<lparr> epochs := 0 \<rparr> \<rparr>"

definition cfg_batch_zero :: PretrainConfig where
  "cfg_batch_zero = cfg_lmdb_ok \<lparr> training := TrainingConfig_default \<lparr> batch_size := 0 \<rparr> \<rparr>"

definition cfg_lr_zero :: PretrainConfig where
  "cfg_lr_zero = cfg_lmdb_ok \<lparr> training := TrainingConfig_default \<lparr> lr := Finite 0 \<rparr> \<rparr>"

definition cfg_layers_zero :: PretrainConfig where
  "cfg_layers_zero = cfg_lmdb_ok \<lparr> model := ModelConfig_default \<lparr> encoder_layers := 0 \<rparr> \<rparr>"

section \<open>Dynamically typed values\<close>

text \<open>
  The parameters of \<^verbatim>\<open>MolTrain\<close> and \<^verbatim>\<open>UniMolRepr\<close> are untyped; a caller may pass any of
  these values. A dictionary is an association list, in insertion order.
\<close>

datatype pyval =
    PyNone
  | PyBool bool
  | PyInt int
  | PyFloat pyfloat
  | PyStr string
  | PyList "pyval list"
  | PyDict "(pyval \<times> pyval) list"

text \<open>Python's truth value: \<^verbatim>\<open>None\<close>, \<^verbatim>\<open>False\<close>, zero and empty containers are false.\<close>

fun truthy :: "pyval \<Rightarrow> bool" where
  "truthy PyNone = False"
| "truthy (PyBool b) = b"
| "truthy (PyInt i) = (i \<noteq> 0)"
| "truthy (PyFloat f) = (f \<noteq> Finite 0)"
| "truthy (PyStr s) = (s \<noteq> [])"
| "truthy (PyList xs) = (xs \<noteq> [])"
| "truthy (PyDict kvs) = (kvs \<noteq> [])"

text \<open>\<^verbatim>\<open>a or b\<close> is \<open>a\<close> when \<open>a\<close> is true and \<open>b\<close> otherwise; it is not coerced to a bool.\<close>

definition py_or :: "pyval \<Rightarrow> pyval \<Rightarrow> pyval" where
  "py_or a b = (if truthy a then a else b)"

text \<open>\<^verbatim>\<open>x in [s1, ..., sn]\<close> for a list of string literals: only an equal string is a member.\<close>

definition py_in_strs :: "pyval \<Rightarrow> string list \<Rightarrow> bool" where
  "py_in_strs x ss = (x \<in> set (map PyStr ss))"

text \<open>A keyword dictionary; assignment to a present key keeps its position.\<close>

type_synonym pydict = "(string \<times> pyval) list"

fun dict_set :: "string \<Rightarrow> pyval \<Rightarrow> pydict \<Rightarrow> pydict" where
  "dict_set k v [] = [(k, v)]"
| "dict_set k v (p # ps) = (if fst p = k then (k, v) # ps else p # dict_set k v ps)"

text \<open>
  The config object is the attribute dictionary that the YAML handler returns; reading a
  key that is absent yields an empty dictionary. Every key read below is set by
  \<^verbatim>\<open>__init__\<close>.
\<close>

definition dict_get :: "pydict \<Rightarrow> string \<Rightarrow> pyval" where
  "dict_get d k = (case map_of d k of Some v \<Rightarrow> v | None \<Rightarrow> PyDict [])"

definition of_opt_str :: "string option \<Rightarrow> pyval" where
  "of_opt_str p = (case p of None \<Rightarrow> PyNone | Some s \<Rightarrow> PyStr s)"

text \<open>\<^verbatim>\<open>os.path.join\<close> of two strings (POSIX).\<close>

definition os_path_join :: "string \<Rightarrow> string \<Rightarrow> string" where
  "os_path_join a b =
     (if b \<noteq> [] \<and> hd b = CHR ''/'' then b
      else if a = [] \<or> last a = CHR ''/'' then a @ b
      else a @ ''/'' @ b)"

text \<open>\<^verbatim>\<open>sep.join(xs)\<close>.\<close>

fun str_join :: "string \<Rightarrow> string list \<Rightarrow> string" where
  "str_join sep [] = []"
| "str_join sep [x] = x"
| "str_join sep (x # y # ys) = x @ sep @ str_join sep (y # ys)"

section \<open>train.py\<close>

text \<open>
  What \<^verbatim>\<open>MolTrain\<close> does to the outside, in the order in which it happens. \<open>'th\<close> is the
  type of the decision threshold.
\<close>

datatype 'th event =
    Log string
  | DataHub_init
  | Makedirs string
  | Write_yaml pydict string
  | Trainer_init
  | NNModel_init
  | Run
  | Joblib_dump 'th string

text \<open>
  The dictionary \<^verbatim>\<open>datahub.data\<close>, with the entries that \<^verbatim>\<open>MolTrain\<close> reads. A target scaler
  is given by its \<^verbatim>\<open>inverse_transform\<close>. \<open>'a\<close> is the type of arrays.
\<close>

record 'a hub_data =
  num_classes :: pyval
  target_cols :: "string list"
  multiclass_cnt :: pyval
  target_scaler :: "('a \<Rightarrow> 'a) option"
  target :: 'a

text \<open>
  The collaborators of \<^verbatim>\<open>MolTrain\<close>: \<open>'i\<close> is the training input, \<open>'t\<close> the trainer, \<open>'m\<close>
  the cross-validation model. \<open>py_str\<close> is Python's \<^verbatim>\<open>str\<close> on values other than strings,
  \<open>module_dir\<close> is \<^verbatim>\<open>os.path.dirname(__file__)\<close>.
\<close>

record ('i, 'a, 't, 'm, 'th) train_env =
  read_yaml :: "string \<Rightarrow> pydict"
  module_dir :: string
  path_exists :: "string \<Rightarrow> bool"
  py_str :: "pyval \<Rightarrow> string"
  DataHub :: "'i \<Rightarrow> pydict \<Rightarrow> 'a hub_data"
  Trainer :: "pydict \<Rightarrow> 't"
  NNModel :: "'a hub_data \<Rightarrow> 't \<Rightarrow> pydict \<Rightarrow> 'm"
  run :: "'m \<Rightarrow> 'm"
  cv_pred_of :: "'m \<Rightarrow> 'a"
  np_array :: "'a \<Rightarrow> 'a"
  calculate_classification_threshold :: "'t \<Rightarrow> 'a \<Rightarrow> 'a \<Rightarrow> 'th"

text \<open>
  The parameters of \<^verbatim>\<open>MolTrain.__init__\<close>, each under its own name with the prefix
  \<open>p_\<close>. The extra keyword parameters are never read.
\<close>

record MolTrain_params =
  p_task :: pyval
  p_data_type :: pyval
  p_epochs :: pyval
  p_learning_rate :: pyval
  p_batch_size :: pyval
  p_early_stopping :: pyval
  p_metrics :: pyval
  p_split :: pyval
  p_split_group_col :: pyval
  p_kfold :: pyval
  p_save_path :: "string option"
  p_remove_hs :: pyval
  p_smiles_col :: pyval
  p_target_cols :: pyval
  p_target_col_prefix :: pyval
  p_target_anomaly_check :: pyval
  p_smiles_check :: pyval
  p_target_normalize :: pyval
  p_max_norm :: pyval
  p_use_cuda :: pyval
  p_use_amp :: pyval
  p_use_ddp :: pyval
  p_use_gpu :: pyval
  p_freeze_layers :: pyval
  p_freeze_layers_reversed :: pyval
  p_load_model_dir :: "string option"
  p_model_name :: pyval
  p_model_size :: pyval
  p_conf_cache_level :: pyval
  p_params :: pydict

definition MolTrain_defaults :: MolTrain_params where
  "MolTrain_defaults =
     \<lparr> p_task = PyStr ''classification'', p_data_type = PyStr ''molecule'',
       p_epochs = PyInt 10, p_learning_rate = PyFloat (Finite (1 / 10000)),
       p_batch_size = PyInt 16, p_early_stopping = PyInt 5, p_metrics = PyStr ''none'',
       p_split = PyStr ''random'', p_split_group_col = PyStr ''scaffold'',
       p_kfold = PyInt 5, p_save_path = Some ''./exp'', p_remove_hs = PyBool False,
       p_smiles_col = PyStr ''SMILES'', p_target_cols = PyNone,
       p_target_col_prefix = PyStr ''TARGET'', p_target_anomaly_check = PyBool False,
       p_smiles_check = PyStr ''filter'', p_target_normalize = PyStr ''auto'',
       p_max_norm = PyFloat (Finite 5), p_use_cuda = PyBool True, p_use_amp = PyBool True,
       p_use_ddp = PyBool False, p_use_gpu = PyStr ''all'', p_freeze_layers = PyNone,
       p_freeze_layers_reversed = PyBool False, p_load_model_dir = None,
       p_model_name = PyStr ''unimolv1'', p_model_size = PyStr ''84m'',
       p_conf_cache_level = PyInt 1, p_params = [] \<rparr>"

text \<open>The \<^verbatim>\<open>MolTrain\<close> object; the fields set by \<^verbatim>\<open>fit\<close> are absent before.\<close>

record ('a, 't, 'm) MolTrain =
  yamlhandler :: string
  save_path :: "string option"
  config :: pydict
  data :: "'a hub_data option"
  trainer :: "'t option"
  nn_model :: "'m option"
  cv_pred :: "'a option"

text \<open>The two policy flags that \<^verbatim>\<open>__init__\<close> derives.\<close>

definition anomaly_clean_of :: "pyval \<Rightarrow> pyval" where
  "anomaly_clean_of target_anomaly_check =
     py_or target_anomaly_check (PyBool (py_in_strs target_anomaly_check [''filter'']))"

definition smi_strict_of :: "pyval \<Rightarrow> pyval" where
  "smi_strict_of smiles_check = PyBool (py_in_strs smiles_check [''filter''])"

definition MolTrain_config_path :: "('i, 'a, 't, 'm, 'th) train_env \<Rightarrow> string option \<Rightarrow> string" where
  "MolTrain_config_path env load_model_dir =
     (case load_model_dir of
        Some d \<Rightarrow> os_path_join d ''config.yaml''
      | None \<Rightarrow> os_path_join (module_dir env) ''config/default.yaml'')"

text \<open>The assignments \<^verbatim>\<open>config.key = value\<close> of \<^verbatim>\<open>__init__\<close>, in order.\<close>

definition MolTrain_assignments :: "MolTrain_params \<Rightarrow> (string \<times> pyval) list" where
  "MolTrain_assignments p =
     [ (''task'', p_task p), (''data_type'', p_data_type p), (''epochs'', p_epochs p),
       (''learning_rate'', p_learning_rate p), (''batch_size'', p_batch_size p),
       (''patience'', p_early_stopping p), (''metrics'', p_metrics p),
       (''split'', p_split p), (''split_group_col'', p_split_group_col p),
       (''kfold'', p_kfold p), (''remove_hs'', p_remove_hs p),
       (''smiles_col'', p_smiles_col p), (''target_cols'', p_target_cols p),
       (''target_col_prefix'', p_target_col_prefix p),
       (''anomaly_clean'', anomaly_clean_of (p_target_anomaly_check p)),
       (''smi_strict'', smi_strict_of (p_smiles_check p)),
       (''target_normalize'', p_target_normalize p), (''max_norm'', p_max_norm p),
       (''use_cuda'', p_use_cuda p), (''use_amp'', p_use_amp p),
       (''use_ddp'', p_use_ddp p), (''use_gpu'', p_use_gpu p),
       (''freeze_layers'', p_freeze_layers p),
       (''freeze_layers_reversed'', p_freeze_layers_reversed p),
       (''load_model_dir'', of_opt_str (p_load_model_dir p)),
       (''model_name'', p_model_name p), (''model_size'', p_model_size p),
       (''conf_cache_level'', p_conf_cache_level p) ]"

definition MolTrain_init ::
  "('i, 'a, 't, 'm, 'th) train_env \<Rightarrow> MolTrain_params \<Rightarrow> 'th event list \<times> ('a, 't, 'm) MolTrain"
where
  "MolTrain_init env p =
     (let config_path = MolTrain_config_path env (p_load_model_dir p);
          logged = (case p_load_model_dir p of
                      Some d \<Rightarrow> [Log (''Load config file from '' @ config_path)]
                    | None \<Rightarrow> []);
          config0 = read_yaml env config_path;
          config1 = fold (\<lambda>(k, v). dict_set k v) (MolTrain_assignments p) config0
      in (logged,
          \<lparr> yamlhandler = config_path, save_path = p_save_path p, config = config1,
            data = None, trainer = None, nn_model = None, cv_pred = None \<rparr>))"

text \<open>A value inside an f-string: a string stands for itself.\<close>

definition format_value :: "('i, 'a, 't, 'm, 'th) train_env \<Rightarrow> pyval \<Rightarrow> string" where
  "format_value env v = (case v of PyStr s \<Rightarrow> s | _ \<Rightarrow> py_str env v)"

text \<open>
  \<^verbatim>\<open>MolTrain.update_and_save_config\<close>; \<open>d\<close> is \<^verbatim>\<open>self.data\<close>. It returns what it did and
  the object with the updated config.
\<close>

definition update_and_save_config ::
  "('i, 'a, 't, 'm, 'th) train_env \<Rightarrow> ('a, 't, 'm) MolTrain \<Rightarrow> 'a hub_data \<Rightarrow>
     'th event list \<times> ('a, 't, 'm) MolTrain"
where
  "update_and_save_config env self d =
     (let c1 = dict_set ''num_classes'' (num_classes d) (config self);
          c2 = dict_set ''target_cols'' (PyStr (str_join '','' (target_cols d))) c1;
          c3 = (if dict_get c2 ''task'' = PyStr ''multiclass''
                then dict_set ''multiclass_cnt'' (multiclass_cnt d) c2 else c2);
          c4 = dict_set ''split_method''
                 (PyStr (format_value env (dict_get c3 ''kfold'') @ ''fold_'' @
                         format_value env (dict_get c3 ''split''))) c3;
          self' = self \<lparr> config := c4 \<rparr>
      in case save_path self of
           None \<Rightarrow> ([], self')
         | Some sp \<Rightarrow>
             ((if \<not> path_exists env sp
               then [Log (''Create output directory: '' @ sp), Makedirs sp]
               else [Log (''Output directory already exists: '' @ sp),
                     Log (''Warning: Overwrite output directory: '' @ sp)])
              @ [Write_yaml c4 (os_path_join sp ''config.yaml'')],
              self'))"

text \<open>
  \<^verbatim>\<open>MolTrain.fit\<close>. The result is the trace of what the run did and either the object
  after the run or the error that ended it: \<^verbatim>\<open>os.path.join\<close> raises \<^verbatim>\<open>TypeError\<close> on a
  \<open>save_path\<close> that is \<^verbatim>\<open>None\<close>.
\<close>

definition fit ::
  "('i, 'a, 't, 'm, 'th) train_env \<Rightarrow> ('a, 't, 'm) MolTrain \<Rightarrow> 'i \<Rightarrow>
     'th event list \<times> (error + ('a, 't, 'm) MolTrain)"
where
  "fit env self input =
     (let d = DataHub env input
                ([(''is_train'', PyBool True), (''save_path'', of_opt_str (save_path self))]
                 @ config self);
          self1 = self \<lparr> data := Some d \<rparr>;
          (saved, self2) = update_and_save_config env self1 d;
          tr = Trainer env ((''save_path'', of_opt_str (save_path self2)) # config self2);
          self3 = self2 \<lparr> trainer := Some tr \<rparr>;
          m = NNModel env d tr (config self3);
          m' = run env m;
          self4 = self3 \<lparr> nn_model := Some m' \<rparr>;
          scalar = target_scaler d;
          y_pred = cv_pred_of env m';
          y_true = np_array env (target d);
          y_pred' = (case scalar of None \<Rightarrow> y_pred | Some inverse_transform \<Rightarrow> inverse_transform y_pred);
          y_true' = (case scalar of None \<Rightarrow> y_true | Some inverse_transform \<Rightarrow> inverse_transform y_true);
          trace = [DataHub_init] @ saved @ [Trainer_init, NNModel_init, Run]
      in if py_in_strs (dict_get (config self4) ''task'')
              [''classification'', ''multilabel_classification'']
         then (let threshold = calculate_classification_threshold env tr y_true' y_pred'
               in case save_path self4 of
                    None \<Rightarrow> (trace, Inl TypeError)
                  | Some sp \<Rightarrow>
                      (trace @ [Joblib_dump threshold (os_path_join sp ''threshold.dat'')],
                       Inr (self4 \<lparr> cv_pred := Some y_pred' \<rparr>)))
         else (trace, Inr (self4 \<lparr> cv_pred := Some y_pred' \<rparr>)))"

text \<open>Reading a trace: the position of the first event of a kind, and the files written.\<close>

fun first_index :: "('e \<Rightarrow> bool) \<Rightarrow> 'e list \<Rightarrow> nat option" where
  "first_index P [] = None"
| "first_index P (x # xs) =
     (if P x then Some 0 else map_option Suc (first_index P xs))"

fun is_write_config :: "'th event \<Rightarrow> bool" where
  "is_write_config (Write_yaml c path) = True"
| "is_write_config _ = False"

fun is_run :: "'th event \<Rightarrow> bool" where
  "is_run Run = True"
| "is_run _ = False"

fun is_dump :: "'th event \<Rightarrow> bool" where
  "is_dump (Joblib_dump th path) = True"
| "is_dump _ = False"

text \<open>\<open>a\<close> happens before \<open>b\<close>: both happen, and the first \<open>a\<close> precedes the first \<open>b\<close>.\<close>

definition happens_before :: "('e \<Rightarrow> bool) \<Rightarrow> ('e \<Rightarrow> bool) \<Rightarrow> 'e list \<Rightarrow> bool" where
  "happens_before A B tr =
     (case (first_index A tr, first_index B tr) of
        (Some i, Some j) \<Rightarrow> i < j
      | _ \<Rightarrow> False)"

text \<open>
  A concrete run, used below as an input: arrays are lists of integers, the data hub
  returns three targets and a scaler whose inverse doubles, the model predicts
  \<open>[1, 0, 1]\<close> after its run, the threshold is the sum of all entries, and no directory
  exists yet.
\<close>

definition hub0 :: "int list hub_data" where
  "hub0 = \<lparr> num_classes = PyInt 2, target_cols = [''TARGET''], multiclass_cnt = PyNone,
            target_scaler = Some (map (\<lambda>x. 2 * x)), target = [1, 1, 0] \<rparr>"

definition env0 :: "(unit, int list, unit, int list, int) train_env" where
  "env0 = \<lparr> read_yaml = (\<lambda>path. []), module_dir = ''/pkg/unimol_tools'',
            path_exists = (\<lambda>path. False),
            py_str = (\<lambda>v. if v = PyInt 5 then ''5'' else ''?''),
            DataHub = (\<lambda>input kw. hub0), Trainer = (\<lambda>kw. ()),
            NNModel = (\<lambda>d t kw. []), run = (\<lambda>m. [1, 0, 1]), cv_pred_of = (\<lambda>m. m),
            np_array = (\<lambda>a. a),
            calculate_classification_threshold = (\<lambda>t y_true y_pred. sum_list y_true + sum_list y_pred) \<rparr>"

definition env0_unscaled :: "(unit, int list, unit, int list, int) train_env" where
  "env0_unscaled = env0 \<lparr> DataHub := (\<lambda>input kw. hub0 \<lparr> target_scaler := None \<rparr>) \<rparr>"

definition train0 :: "(int list, unit, int list) MolTrain" where
  "train0 = snd (MolTrain_init env0 MolTrain_defaults)"

definition train0_regression :: "(int list, unit, int list) MolTrain" where
  "train0_regression =
     snd (MolTrain_init env0 (MolTrain_defaults \<lparr> p_task := PyStr ''regression'' \<rparr>))"

section \<open>predictor.py\<close>

subsection \<open>MolDataset\<close>

text \<open>
  Indexing a list or an array with a Python integer: a negative index counts from the
  end, an index out of range raises \<^verbatim>\<open>IndexError\<close>.
\<close>

definition in_range :: "'a list \<Rightarrow> int \<Rightarrow> bool" where
  "in_range xs i = (- int (length xs) \<le> i \<and> i < int (length xs))"

definition py_pos :: "'a list \<Rightarrow> int \<Rightarrow> nat" where
  "py_pos xs i = nat (if i < 0 then int (length xs) + i else i)"

definition py_index :: "'a list \<Rightarrow> int \<Rightarrow> error + 'a" where
  "py_index xs i = (if in_range xs i then Inr (xs ! py_pos xs i) else Inl IndexError)"

text \<open>\<^verbatim>\<open>np.zeros((n, k))\<close>: \<open>n\<close> rows of \<open>k\<close> zeros.\<close>

definition np_zeros :: "nat \<times> nat \<Rightarrow> real list list" where
  "np_zeros shape = replicate (fst shape) (replicate (snd shape) 0)"

text \<open>
  The fields \<^verbatim>\<open>data\<close> and \<^verbatim>\<open>label\<close> of a \<^verbatim>\<open>MolDataset\<close>, under the prefix \<open>ds_\<close>. The labels
  are an array with one row for each entry.
\<close>

record 'u MolDataset =
  ds_data :: "'u list"
  ds_label :: "real list list"

definition MolDataset_init :: "'u list \<Rightarrow> real list list option \<Rightarrow> 'u MolDataset" where
  "MolDataset_init data' label =
     \<lparr> ds_data = data',
       ds_label = (case label of Some l \<Rightarrow> l | None \<Rightarrow> np_zeros (length data', 1)) \<rparr>"

definition MolDataset_getitem :: "'u MolDataset \<Rightarrow> int \<Rightarrow> error + ('u \<times> real list)" where
  "MolDataset_getitem self idx =
     (case py_index (ds_data self) idx of
        Inl e \<Rightarrow> Inl e
      | Inr x \<Rightarrow>
          (case py_index (ds_label self) idx of
             Inl e \<Rightarrow> Inl e
           | Inr y \<Rightarrow> Inr (x, y)))"

definition MolDataset_len :: "'u MolDataset \<Rightarrow> nat" where
  "MolDataset_len self = length (ds_data self)"

subsection \<open>UniMolRepr\<close>

text \<open>
  What \<^verbatim>\<open>get_repr\<close> accepts as \<open>data\<close>: a Python value or a numpy array (of its entries).
\<close>

datatype repr_data = Val pyval | NdArray "pyval list"

text \<open>A pandas data frame: its columns, each with its name and its values.\<close>

type_synonym dataframe = "(string \<times> pyval list) list"

text \<open>
  The collaborators of \<^verbatim>\<open>UniMolRepr\<close>: \<open>'rm\<close> is the network, \<open>'u\<close> the entries of
  \<^verbatim>\<open>datahub.data['unimol_input']\<close>, \<open>'t\<close> the trainer, \<open>'r\<close> the representation output.
  \<open>str_format\<close> is \<^verbatim>\<open>'{}'.format\<close> on values other than strings.
\<close>

record ('rm, 'u, 't, 'r) repr_env =
  cuda_is_available :: bool
  UniMolModel :: "int \<Rightarrow> pyval \<Rightarrow> pyval \<Rightarrow> 'rm"
  UniMolV2Model :: "int \<Rightarrow> pyval \<Rightarrow> 'rm"
  to_device :: "'rm \<Rightarrow> string \<Rightarrow> 'rm"
  eval_mode :: "'rm \<Rightarrow> 'rm"
  str_format :: "pyval \<Rightarrow> string"
  read_csv :: "string \<Rightarrow> dataframe"
  DataHub_unimol_input :: "repr_data \<Rightarrow> pydict \<Rightarrow> 'u list"
  Trainer_repr :: "pydict \<Rightarrow> 't"
  inference :: "'t \<Rightarrow> 'rm \<Rightarrow> pyval \<Rightarrow> bool \<Rightarrow> pyval \<Rightarrow> 'u MolDataset \<Rightarrow> pyval \<Rightarrow> 'r"

text \<open>
  The parameters of \<^verbatim>\<open>UniMolRepr.__init__\<close>, each under its own name with the prefix
  \<open>r_\<close>; \<open>r_kwargs\<close> are the extra keyword parameters, which are never read.
\<close>

record UniMolRepr_params =
  r_data_type :: pyval
  r_batch_size :: pyval
  r_remove_hs :: pyval
  r_model_name :: pyval
  r_model_size :: pyval
  r_use_cuda :: pyval
  r_use_ddp :: pyval
  r_use_gpu :: pyval
  r_save_path :: pyval
  r_kwargs :: pydict

definition UniMolRepr_defaults :: UniMolRepr_params where
  "UniMolRepr_defaults =
     \<lparr> r_data_type = PyStr ''molecule'', r_batch_size = PyInt 32,
       r_remove_hs = PyBool False, r_model_name = PyStr ''unimolv1'',
       r_model_size = PyStr ''84m'', r_use_cuda = PyBool True, r_use_ddp = PyBool False,
       r_use_gpu = PyStr ''all'', r_save_path = PyNone, r_kwargs = [] \<rparr>"

text \<open>The \<^verbatim>\<open>UniMolRepr\<close> object, its fields under the prefix \<open>repr_\<close>.\<close>

record ('rm, 't) UniMolRepr =
  repr_device :: string
  repr_model :: 'rm
  repr_params :: pydict
  repr_trainer :: "'t option"

definition UniMolRepr_init ::
  "('rm, 'u, 't, 'r) repr_env \<Rightarrow> UniMolRepr_params \<Rightarrow> error + ('rm, 't) UniMolRepr"
where
  "UniMolRepr_init env p =
     (let device = (if cuda_is_available env \<and> truthy (r_use_cuda p)
                    then ''cuda:0'' else ''cpu'');
          params =
            [ (''data_type'', r_data_type p), (''batch_size'', r_batch_size p),
              (''remove_hs'', r_remove_hs p), (''model_name'', r_model_name p),
              (''model_size'', r_model_size p), (''use_cuda'', r_use_cuda p),
              (''use_ddp'', r_use_ddp p), (''use_gpu'', r_use_gpu p),
              (''save_path'', r_save_path p) ];
          finish = (\<lambda>m. Inr \<lparr> repr_device = device, repr_model = eval_mode env m,
                                 repr_params = params, repr_trainer = None \<rparr>)
      in if r_model_name p = PyStr ''unimolv1''
         then finish (to_device env (UniMolModel env 1 (r_data_type p) (r_remove_hs p)) device)
         else if r_model_name p = PyStr ''unimolv2''
         then finish (to_device env (UniMolV2Model env 1 (r_model_size p)) device)
         else Inl (ValueError (''Unknown model name: '' @
                (case r_model_name p of PyStr s \<Rightarrow> s | v \<Rightarrow> str_format env v))))"

text \<open>\<^verbatim>\<open>s.endswith(suffix)\<close>.\<close>

definition endswith :: "string \<Rightarrow> string \<Rightarrow> bool" where
  "endswith s suf = (length suf \<le> length s \<and> drop (length s - length suf) s = suf)"

text \<open>\<^verbatim>\<open>isinstance(x, str)\<close>.\<close>

fun is_str :: "pyval \<Rightarrow> bool" where
  "is_str (PyStr s) = True"
| "is_str _ = False"

text \<open>\<^verbatim>\<open>'{}'.format(type(x))\<close>.\<close>

fun type_repr :: "pyval \<Rightarrow> string" where
  "type_repr PyNone = ''<class 'NoneType'>''"
| "type_repr (PyBool b) = ''<class 'bool'>''"
| "type_repr (PyInt i) = ''<class 'int'>''"
| "type_repr (PyFloat f) = ''<class 'float'>''"
| "type_repr (PyStr s) = ''<class 'str'>''"
| "type_repr (PyList xs) = ''<class 'list'>''"
| "type_repr (PyDict kvs) = ''<class 'dict'>''"

text \<open>
  The first part of \<^verbatim>\<open>get_repr\<close>: the chain of \<^verbatim>\<open>isinstance\<close> tests, which checks \<open>data\<close>
  and turns it into what the data hub receives.
\<close>

fun get_repr_data :: "('rm, 'u, 't, 'r) repr_env \<Rightarrow> repr_data \<Rightarrow> error + repr_data" where
  "get_repr_data env (Val (PyStr s)) =
     (if endswith s ''.sdf'' then Inr (Val (PyStr s))
      else if endswith s ''.csv''
      then (let df = read_csv env s
            in case map_of df ''SMILES'' of
                 None \<Rightarrow> Inl AssertionError
               | Some vals \<Rightarrow> Inr (NdArray vals))
      else Inr (NdArray [PyStr s]))"
| "get_repr_data env (Val (PyDict d)) =
     (if PyStr ''atoms'' \<in> set (map fst d) \<and> PyStr ''coordinates'' \<in> set (map fst d)
      then Inr (Val (PyDict d)) else Inl AssertionError)"
| "get_repr_data env (Val (PyList xs)) =
     (if xs = [] then Inl IndexError
      else if is_str (last xs) then Inr (NdArray xs) else Inl AssertionError)"
| "get_repr_data env (NdArray xs) =
     (if xs = [] then Inl IndexError
      else if is_str (hd xs) then Inr (NdArray xs) else Inl AssertionError)"
| "get_repr_data env (Val v) = Inl (ValueError (''Unknown data type: '' @ type_repr v))"

text \<open>
  \<^verbatim>\<open>UniMolRepr.get_repr\<close>: it returns the representation and the object, which now holds
  the trainer.
\<close>

definition get_repr ::
  "('rm, 'u, 't, 'r) repr_env \<Rightarrow> ('rm, 't) UniMolRepr \<Rightarrow> repr_data \<Rightarrow> pyval \<Rightarrow> pyval \<Rightarrow>
     error + ('r \<times> ('rm, 't) UniMolRepr)"
where
  "get_repr env self data' return_atomic_reprs return_tensor =
     (case get_repr_data env data' of
        Inl e \<Rightarrow> Inl e
      | Inr prepared \<Rightarrow>
          (let unimol_input = DataHub_unimol_input env prepared
                 ([(''task'', PyStr ''repr''), (''is_train'', PyBool False)] @ repr_params self);
               dataset' = MolDataset_init unimol_input None;
               tr = Trainer_repr env ((''task'', PyStr ''repr'') # repr_params self);
               repr_output = inference env tr (repr_model self)
                 (dict_get (repr_params self) ''model_name'') True return_atomic_reprs
                 dataset' return_tensor
           in Inr (repr_output, self \<lparr> repr_trainer := Some tr \<rparr>)))"

text \<open>Concrete collaborators and inputs for \<^verbatim>\<open>UniMolRepr\<close>.\<close>

definition renv0 :: "(string, pyval, unit, nat) repr_env" where
  "renv0 = \<lparr> cuda_is_available = False,
             UniMolModel = (\<lambda>output_dim dt rh. ''unimolv1''),
             UniMolV2Model = (\<lambda>output_dim size. ''unimolv2''),
             to_device = (\<lambda>m dev. m), eval_mode = (\<lambda>m. m),
             str_format = (\<lambda>v. ''?''),
             read_csv = (\<lambda>path. if path = ''smiles.csv''
                                  then [(''SMILES'', [PyStr ''CCO'', PyStr ''C''])]
                                  else [(''smi'', [PyStr ''CCO''])]),
             DataHub_unimol_input = (\<lambda>d kw. case d of NdArray xs \<Rightarrow> xs | Val v \<Rightarrow> [v]),
             Trainer_repr = (\<lambda>kw. ()),
             inference = (\<lambda>t m name rr ra ds rt. MolDataset_len ds) \<rparr>"

definition repr0 :: "(string, unit) UniMolRepr" where
  "repr0 = \<lparr> repr_device = ''cpu'', repr_model = ''unimolv1'',
             repr_params = [(''model_name'', PyStr ''unimolv1''), (''smiles_col'', PyStr ''smi'')],
             repr_trainer = None \<rparr>"

definition conformer0 :: pyval where
  "conformer0 = PyDict
     [(PyStr ''atoms'', PyList [PyList [PyStr ''C'', PyStr ''C'', PyStr ''O'']]),
      (PyStr ''coordinates'', PyList [PyList
         [PyList [PyInt 0, PyInt 0, PyInt 0], PyList [PyInt 1, PyInt 0, PyInt 0],
          PyList [PyInt 2, PyInt 0, PyInt 0]]])]"

section \<open>Properties of validate\<close>

lemma msgs_distinct:
  "msg_encoder_layers \<noteq> msg_train_lmdb" "msg_encoder_layers \<noteq> msg_train_path"
  "msg_batch_size \<noteq> msg_train_lmdb" "msg_batch_size \<noteq> msg_train_path"
  "msg_lr \<noteq> msg_train_lmdb" "msg_lr \<noteq> msg_train_path"
  by (simp_all add: msg_train_lmdb_def msg_train_path_def msg_encoder_layers_def
        msg_batch_size_def msg_lr_def)

lemma validate_cases:
  "validate c =
     (if data_type (dataset c) = ''lmdb'' \<and> \<not> truthy_opt_str (train_lmdb (dataset c))
      then Inl (ValueError msg_train_lmdb)
      else if data_type (dataset c) \<noteq> ''lmdb'' \<and> \<not> truthy_opt_str (train_path (dataset c))
      then Inl (ValueError msg_train_path)
      else if encoder_layers (model c) \<le> 0 then Inl (ValueError msg_encoder_layers)
      else if batch_size (training c) \<le> 0 then Inl (ValueError msg_batch_size)
      else if float_le_zero (lr (training c)) then Inl (ValueError msg_lr)
      else Inr ())"
  by (simp add: validate_def seq_def raise_if_def)

lemma truthy_opt_str_iff: "truthy_opt_str x \<longleftrightarrow> x \<noteq> None \<and> x \<noteq> Some []"
  by (cases x) auto

lemmas cfg_defs =
  cfg_lmdb_ok_def cfg_lmdb_empty_def cfg_csv_ok_def cfg_csv_lmdb_only_def
  cfg_epochs_zero_def cfg_batch_zero_def cfg_lr_zero_def cfg_layers_zero_def
  PretrainConfig_default_def DatasetConfig_default_def
  ModelConfig_default_def TrainingConfig_default_def

text \<open>
  C1 (amended). The dataset-path check of \<open>validate\<close> fails exactly when the path required
  by the selected data kind is missing, where missing means unset (\<^verbatim>\<open>None\<close>) or the empty
  string: \<open>train_lmdb\<close> when \<open>data_type\<close> is \<^verbatim>\<open>'lmdb'\<close>, \<open>train_path\<close> otherwise. In every
  other case the dataset-path check passes.
\<close>

theorem validate_dataset_path:
  "dataset_path_error (validate c) \<longleftrightarrow>
     (data_type (dataset c) = ''lmdb'' \<and>
        (train_lmdb (dataset c) = None \<or> train_lmdb (dataset c) = Some []))
   \<or> (data_type (dataset c) \<noteq> ''lmdb'' \<and>
        (train_path (dataset c) = None \<or> train_path (dataset c) = Some []))"
  using msgs_distinct
  by (auto simp add: validate_cases dataset_path_error_def truthy_opt_str_iff)

theorem validate_dataset_path_witness:
  "dataset_path_error (validate PretrainConfig_default) \<and>
   \<not> dataset_path_error (validate cfg_lmdb_ok) \<and>
   \<not> dataset_path_error (validate cfg_csv_ok) \<and>
   dataset_path_error (validate cfg_csv_lmdb_only)"
  using validate_dataset_path [of PretrainConfig_default]
    validate_dataset_path [of cfg_lmdb_ok] validate_dataset_path [of cfg_csv_ok]
    validate_dataset_path [of cfg_csv_lmdb_only]
  by (simp add: cfg_defs)

text \<open>
  C1 as stated fails: with \<open>data_type\<close> equal to \<^verbatim>\<open>'lmdb'\<close> and \<open>train_lmdb\<close> set to the
  empty string, the path is set, and \<open>validate\<close> still raises the dataset-path error.
\<close>

theorem validate_dataset_path_counterexample:
  "validate cfg_lmdb_empty = Inl (ValueError msg_train_lmdb) \<and>
   \<not> (dataset_path_error (validate cfg_lmdb_empty) \<longleftrightarrow>
        (data_type (dataset cfg_lmdb_empty) = ''lmdb'' \<and>
           train_lmdb (dataset cfg_lmdb_empty) = None)
      \<or> (data_type (dataset cfg_lmdb_empty) \<noteq> ''lmdb'' \<and>
           train_path (dataset cfg_lmdb_empty) = None))"
  by (simp add: cfg_defs validate_cases dataset_path_error_def)

text \<open>
  C2 (amended). \<open>validate\<close> raises for a non-positive \<open>encoder_layers\<close>, \<open>batch_size\<close> or
  learning rate. The epoch count is not validated: the outcome of \<open>validate\<close> does not
  depend on \<open>training.epochs\<close>.
\<close>

theorem validate_nonpositive:
  "(encoder_layers (model c) \<le> 0 \<longrightarrow> raises (validate c)) \<and>
   (batch_size (training c) \<le> 0 \<longrightarrow> raises (validate c)) \<and>
   (float_le_zero (lr (training c)) \<longrightarrow> raises (validate c)) \<and>
   validate (c \<lparr> training := (training c) \<lparr> epochs := e \<rparr> \<rparr>) = validate c"
  by (simp add: validate_cases raises_def)

theorem validate_nonpositive_witness:
  "encoder_layers (model cfg_layers_zero) \<le> 0 \<and> raises (validate cfg_layers_zero) \<and>
   batch_size (training cfg_batch_zero) \<le> 0 \<and> raises (validate cfg_batch_zero) \<and>
   float_le_zero (lr (training cfg_lr_zero)) \<and> raises (validate cfg_lr_zero) \<and>
   validate (cfg_lmdb_ok \<lparr> training := (training cfg_lmdb_ok) \<lparr> epochs := - 3 \<rparr> \<rparr>) = Inr ()"
  using validate_nonpositive [of cfg_layers_zero 0] validate_nonpositive [of cfg_batch_zero 0]
    validate_nonpositive [of cfg_lr_zero 0] validate_nonpositive [of cfg_lmdb_ok "- 3"]
  by (simp add: cfg_defs validate_cases)

text \<open>
  C2 as stated fails: a configuration with a dataset path and \<open>epochs = 0\<close> passes
  \<open>validate\<close> without any error.
\<close>

theorem validate_epochs_counterexample:
  "epochs (training cfg_epochs_zero) \<le> 0 \<and> validate cfg_epochs_zero = Inr () \<and>
   \<not> raises (validate cfg_epochs_zero)"
  by (simp add: cfg_defs validate_cases raises_def)

section \<open>Properties of MolTrain\<close>

lemma map_of_dict_set: "map_of (dict_set k v d) = (map_of d)(k \<mapsto> v)"
  by (induction d) (auto simp: fun_eq_iff)

lemma dict_get_dict_set:
  "dict_get (dict_set k v d) k' = (if k' = k then v else dict_get d k')"
  by (simp add: dict_get_def map_of_dict_set)

lemma init_config_get:
  "dict_get (config (snd (MolTrain_init env p))) ''anomaly_clean'' =
     anomaly_clean_of (p_target_anomaly_check p)"
  "dict_get (config (snd (MolTrain_init env p))) ''smi_strict'' =
     smi_strict_of (p_smiles_check p)"
  "dict_get (config (snd (MolTrain_init env p))) ''task'' = p_task p"
  "save_path (snd (MolTrain_init env p)) = p_save_path p"
  by (simp_all add: MolTrain_init_def MolTrain_assignments_def Let_def dict_get_dict_set)

lemma py_in_strs_simps:
  "py_in_strs x [s] \<longleftrightarrow> x = PyStr s"
  "py_in_strs x [s, t] \<longleftrightarrow> x = PyStr s \<or> x = PyStr t"
  by (auto simp: py_in_strs_def)

text \<open>
  C4. The claim: \<open>anomaly_clean\<close> is true exactly for the policy \<^verbatim>\<open>'filter'\<close> and false
  for a pass-through policy such as \<^verbatim>\<open>'none'\<close>. The code does otherwise: for the documented
  policy \<^verbatim>\<open>'none'\<close> the flag is the string \<^verbatim>\<open>'none'\<close> itself, which is true and is not
  \<^verbatim>\<open>False\<close>; in general the flag is true exactly when the parameter is.
\<close>

theorem anomaly_clean_none:
  "dict_get (config (snd (MolTrain_init env
      (MolTrain_defaults \<lparr> p_target_anomaly_check := PyStr ''none'' \<rparr>)))) ''anomaly_clean''
     = PyStr ''none'' \<and>
   truthy (PyStr ''none'') \<and> PyStr ''none'' \<noteq> PyBool False \<and>
   truthy (anomaly_clean_of v) = truthy v"
  by (auto simp add: init_config_get anomaly_clean_of_def py_or_def py_in_strs_simps)

text \<open>
  C5. For every value of \<open>smiles_check\<close>, the flag \<open>smi_strict\<close> of the config that
  \<^verbatim>\<open>MolTrain.__init__\<close> builds is the boolean that is true if and only if \<open>smiles_check\<close>
  equals \<^verbatim>\<open>'filter'\<close>.
\<close>

theorem smi_strict_iff:
  "dict_get (config (snd (MolTrain_init env p))) ''smi_strict'' =
     PyBool (p_smiles_check p = PyStr ''filter'')"
  by (simp add: init_config_get smi_strict_of_def py_in_strs_simps)

theorem smi_strict_iff_witness:
  "dict_get (config (snd (MolTrain_init env0 MolTrain_defaults))) ''smi_strict'' = PyBool True \<and>
   dict_get (config (snd (MolTrain_init env0
      (MolTrain_defaults \<lparr> p_smiles_check := PyStr ''none'' \<rparr>)))) ''smi_strict'' = PyBool False \<and>
   dict_get (config (snd (MolTrain_init env0
      (MolTrain_defaults \<lparr> p_smiles_check := PyBool True \<rparr>)))) ''smi_strict'' = PyBool False"
  using smi_strict_iff [of env0 MolTrain_defaults]
    smi_strict_iff [of env0 "MolTrain_defaults \<lparr> p_smiles_check := PyStr ''none'' \<rparr>"]
    smi_strict_iff [of env0 "MolTrain_defaults \<lparr> p_smiles_check := PyBool True \<rparr>"]
  by (simp add: MolTrain_defaults_def)

lemma update_config_task:
  "dict_get (config (snd (update_and_save_config env self d))) ''task'' =
     dict_get (config self) ''task''"
  by (simp add: update_and_save_config_def Let_def dict_get_dict_set split: option.splits)

lemma update_save_path:
  "save_path (snd (update_and_save_config env self d)) = save_path self"
  by (simp add: update_and_save_config_def Let_def split: option.splits)

lemma update_fields:
  "data (snd (update_and_save_config env self d)) = data self"
  "trainer (snd (update_and_save_config env self d)) = trainer self"
  "nn_model (snd (update_and_save_config env self d)) = nn_model self"
  "cv_pred (snd (update_and_save_config env self d)) = cv_pred self"
  by (simp_all add: update_and_save_config_def Let_def split: option.splits)

text \<open>
  What \<^verbatim>\<open>update_and_save_config\<close> does: nothing without a save path, and otherwise two
  events about the output directory followed by the write of \<^verbatim>\<open>config.yaml\<close>.
\<close>

lemma update_trace_shape:
  "fst (update_and_save_config env self d) = [] \<and> save_path self = None \<or>
   (\<exists>a b c sp. fst (update_and_save_config env self d) =
                  [a, b, Write_yaml c (os_path_join sp ''config.yaml'')]
       \<and> \<not> is_write_config a \<and> \<not> is_write_config b \<and> \<not> is_run a \<and> \<not> is_run b
       \<and> \<not> is_dump a \<and> \<not> is_dump b \<and> save_path self = Some sp)"
  by (cases "save_path self") (simp_all add: update_and_save_config_def Let_def)

text \<open>\<^verbatim>\<open>fit\<close> with its intermediate values named.\<close>

lemma fit_eq:
  assumes "d = DataHub env input
             ([(''is_train'', PyBool True), (''save_path'', of_opt_str (save_path self))]
              @ config self)"
    and "u = update_and_save_config env (self \<lparr> data := Some d \<rparr>) d"
    and "t = Trainer env ((''save_path'', of_opt_str (save_path self)) # config (snd u))"
    and "m = run env (NNModel env d t (config (snd u)))"
    and "unscale = (case target_scaler d of None \<Rightarrow> (\<lambda>y. y) | Some f \<Rightarrow> f)"
    and "self' = (snd u) \<lparr> trainer := Some t, nn_model := Some m,
                            cv_pred := Some (unscale (cv_pred_of env m)) \<rparr>"
    and "trace = [DataHub_init] @ fst u @ [Trainer_init, NNModel_init, Run]"
  shows "fit env self input =
     (if dict_get (config self) ''task'' = PyStr ''classification'' \<or>
         dict_get (config self) ''task'' = PyStr ''multilabel_classification''
      then (case save_path self of
              None \<Rightarrow> (trace, Inl TypeError)
            | Some sp \<Rightarrow>
                (trace @ [Joblib_dump
                   (calculate_classification_threshold env t
                      (unscale (np_array env (target d))) (unscale (cv_pred_of env m)))
                   (os_path_join sp ''threshold.dat'')],
                 Inr self'))
      else (trace, Inr self'))"
  unfolding fit_def Let_def split_def assms
  by (simp add: update_config_task update_save_path py_in_strs_simps
        split: option.splits)

text \<open>The concrete run completes.\<close>

lemma fit0_completes:
  "fit env0 train0 () = (fst (fit env0 train0 ()), Inr (projr (snd (fit env0 train0 ()))))"
  "fit env0_unscaled train0 () =
     (fst (fit env0_unscaled train0 ()), Inr (projr (snd (fit env0_unscaled train0 ()))))"
  "fit env0 train0_regression () =
     (fst (fit env0 train0_regression ()), Inr (projr (snd (fit env0 train0_regression ()))))"
proof -
  have "\<not> raises (snd (fit env0 train0 ()))" "\<not> raises (snd (fit env0_unscaled train0 ()))"
    "\<not> raises (snd (fit env0 train0_regression ()))"
    by code_simp+
  then show
    "fit env0 train0 () = (fst (fit env0 train0 ()), Inr (projr (snd (fit env0 train0 ()))))"
    "fit env0_unscaled train0 () =
       (fst (fit env0_unscaled train0 ()), Inr (projr (snd (fit env0_unscaled train0 ()))))"
    "fit env0 train0_regression () =
       (fst (fit env0 train0_regression ()), Inr (projr (snd (fit env0 train0_regression ()))))"
    by (simp_all add: prod_eq_iff raises_def split: sum.splits)
qed

text \<open>
  C6 (amended). In every \<^verbatim>\<open>MolTrain.fit\<close> run that writes \<^verbatim>\<open>config.yaml\<close>, the write
  happens before the training loop (\<^verbatim>\<open>NNModel.run\<close>) starts, not after it, and it is the
  only write of the config in the run.
\<close>

theorem fit_writes_config_before_run:
  assumes "\<exists>e \<in> set (fst (fit env self input)). is_write_config e"
  shows "happens_before is_write_config is_run (fst (fit env self input)) \<and>
         \<not> happens_before is_run is_write_config (fst (fit env self input)) \<and>
         length (filter is_write_config (fst (fit env self input))) = 1"
proof -
  define d where "d = DataHub env input
             ([(''is_train'', PyBool True), (''save_path'', of_opt_str (save_path self))]
              @ config self)"
  define u where "u = update_and_save_config env (self \<lparr> data := Some d \<rparr>) d"
  define trace where "trace = [DataHub_init] @ fst u @ [Trainer_init, NNModel_init, Run]"
  have "fst (fit env self input) = trace \<or>
        (\<exists>th p. fst (fit env self input) = trace @ [Joblib_dump th p])"
    by (simp add: fit_eq [OF d_def u_def refl refl refl refl trace_def] split: option.splits)
  moreover have "fst u = [] \<or>
     (\<exists>a b c p. fst u = [a, b, Write_yaml c p]
         \<and> \<not> is_write_config a \<and> \<not> is_write_config b \<and> \<not> is_run a \<and> \<not> is_run b)"
    using update_trace_shape [of env "self \<lparr> data := Some d \<rparr>" d] unfolding u_def by auto
  ultimately show ?thesis
    using assms unfolding trace_def
    by (auto simp add: happens_before_def)
qed

theorem fit_writes_config_before_run_witness:
  "(\<exists>e \<in> set (fst (fit env0 train0 ())). is_write_config e) \<and>
   happens_before is_write_config is_run (fst (fit env0 train0 ())) \<and>
   \<not> happens_before is_run is_write_config (fst (fit env0 train0 ())) \<and>
   length (filter is_write_config (fst (fit env0 train0 ()))) = 1"
proof -
  have written: "\<exists>e \<in> set (fst (fit env0 train0 ())). is_write_config e"
    by code_simp
  from fit_writes_config_before_run [OF written] written show ?thesis
    by simp
qed

text \<open>
  C6 as stated fails: in the concrete run the config is written as the fourth event and
  the training loop runs as the seventh, so the write does not come after the loop.
\<close>

theorem fit_writes_config_counterexample:
  "first_index is_write_config (fst (fit env0 train0 ())) = Some 3 \<and>
   first_index is_run (fst (fit env0 train0 ())) = Some 6 \<and>
   \<not> happens_before is_run is_write_config (fst (fit env0 train0 ()))"
  by code_simp

text \<open>
  C7. For every completed \<^verbatim>\<open>MolTrain.fit\<close> run, a threshold is dumped if and only if the
  configured task is \<^verbatim>\<open>'classification'\<close> or \<^verbatim>\<open>'multilabel_classification'\<close>, and every dump
  of the run goes to \<^verbatim>\<open>threshold.dat\<close> in the save path.
\<close>

theorem fit_threshold_iff:
  assumes "fit env self input = (tr, Inr self')"
  shows "((\<exists>e \<in> set tr. is_dump e) \<longleftrightarrow>
            dict_get (config self) ''task'' = PyStr ''classification'' \<or>
            dict_get (config self) ''task'' = PyStr ''multilabel_classification'') \<and>
         (\<forall>e \<in> set tr. is_dump e \<longrightarrow>
            (\<exists>th sp. save_path self = Some sp \<and>
                      e = Joblib_dump th (os_path_join sp ''threshold.dat'')))"
proof -
  define d where "d = DataHub env input
             ([(''is_train'', PyBool True), (''save_path'', of_opt_str (save_path self))]
              @ config self)"
  define u where "u = update_and_save_config env (self \<lparr> data := Some d \<rparr>) d"
  define trace where "trace = [DataHub_init] @ fst u @ [Trainer_init, NNModel_init, Run]"
  note F = fit_eq [OF d_def u_def refl refl refl refl trace_def]
  have nodump: "\<forall>e \<in> set trace. \<not> is_dump e"
    using update_trace_shape [of env "self \<lparr> data := Some d \<rparr>" d] unfolding u_def trace_def
    by auto
  show ?thesis
  proof (cases "dict_get (config self) ''task'' = PyStr ''classification'' \<or>
            dict_get (config self) ''task'' = PyStr ''multilabel_classification''")
    case True
    with assms F obtain sp th where "save_path self = Some sp"
      "tr = trace @ [Joblib_dump th (os_path_join sp ''threshold.dat'')]"
      by (auto split: option.splits)
    with True nodump show ?thesis by auto
  next
    case False
    with assms F have "tr = trace" by auto
    with False nodump show ?thesis by auto
  qed
qed

theorem fit_threshold_iff_witness:
  "fit env0 train0 () = (fst (fit env0 train0 ()), Inr (projr (snd (fit env0 train0 ())))) \<and>
   dict_get (config train0) ''task'' = PyStr ''classification'' \<and>
   (\<exists>e \<in> set (fst (fit env0 train0 ())). is_dump e) \<and>
   filter is_dump (fst (fit env0 train0 ())) = [Joblib_dump 8 ''./exp/threshold.dat''] \<and>
   fit env0 train0_regression () =
     (fst (fit env0 train0_regression ()), Inr (projr (snd (fit env0 train0_regression ())))) \<and>
   dict_get (config train0_regression) ''task'' = PyStr ''regression'' \<and>
   \<not> (\<exists>e \<in> set (fst (fit env0 train0_regression ())). is_dump e)"
proof -
  have task: "dict_get (config train0) ''task'' = PyStr ''classification''"
    "dict_get (config train0_regression) ''task'' = PyStr ''regression''"
    by (simp_all add: train0_def train0_regression_def init_config_get MolTrain_defaults_def)
  have dumped: "filter is_dump (fst (fit env0 train0 ())) = [Joblib_dump 8 ''./exp/threshold.dat'']"
    by code_simp
  from fit_threshold_iff [OF fit0_completes(1)] fit_threshold_iff [OF fit0_completes(3)]
    fit0_completes task dumped
  show ?thesis
    by simp
qed

text \<open>
  C8. In every completed \<^verbatim>\<open>MolTrain.fit\<close> run, with \<open>d\<close> the data of the data hub, \<open>t\<close> the
  trainer and \<open>m\<close> the model after its run: if a target scaler was fitted, \<open>cv_pred\<close> is
  the scaler's inverse transform of the model's predictions, and the threshold that is
  dumped is computed from the inverse transforms of the true labels and of the
  predictions; if no scaler was fitted, both are used unchanged.
\<close>

theorem fit_inverse_transform:
  assumes "fit env self input = (tr, Inr self')"
  shows "\<exists>d t m unscale.
           data self' = Some d \<and> trainer self' = Some t \<and> nn_model self' = Some m \<and>
           d = DataHub env input
                 ([(''is_train'', PyBool True), (''save_path'', of_opt_str (save_path self))]
                  @ config self) \<and>
           t = Trainer env ((''save_path'', of_opt_str (save_path self)) # config self') \<and>
           m = run env (NNModel env d t (config self')) \<and>
           unscale = (case target_scaler d of None \<Rightarrow> (\<lambda>y. y) | Some f \<Rightarrow> f) \<and>
           cv_pred self' = Some (unscale (cv_pred_of env m)) \<and>
           (\<forall>th p. Joblib_dump th p \<in> set tr \<longrightarrow>
              th = calculate_classification_threshold env t
                     (unscale (np_array env (target d))) (unscale (cv_pred_of env m)))"
proof -
  define d where "d = DataHub env input
             ([(''is_train'', PyBool True), (''save_path'', of_opt_str (save_path self))]
              @ config self)"
  define u where "u = update_and_save_config env (self \<lparr> data := Some d \<rparr>) d"
  define t where "t = Trainer env ((''save_path'', of_opt_str (save_path self)) # config (snd u))"
  define m where "m = run env (NNModel env d t (config (snd u)))"
  define unscale where "unscale = (case target_scaler d of None \<Rightarrow> (\<lambda>y. y) | Some f \<Rightarrow> f)"
  define trace where "trace = [DataHub_init] @ fst u @ [Trainer_init, NNModel_init, Run]"
  note F = fit_eq [OF d_def u_def t_def m_def unscale_def refl trace_def]
  have "\<forall>e \<in> set trace. \<not> is_dump e"
    using update_trace_shape [of env "self \<lparr> data := Some d \<rparr>" d] unfolding u_def trace_def
    by auto
  then have nodump: "Joblib_dump th p \<notin> set trace" for th p
    by force
  have du: "data (snd u) = Some d"
    by (simp add: u_def update_fields)
  have self': "self' = (snd u) \<lparr> trainer := Some t, nn_model := Some m,
                            cv_pred := Some (unscale (cv_pred_of env m)) \<rparr>"
    using assms F by (auto split: if_splits option.splits)
  have tr: "\<forall>th p. Joblib_dump th p \<in> set tr \<longrightarrow>
              th = calculate_classification_threshold env t
                     (unscale (np_array env (target d))) (unscale (cv_pred_of env m))"
    using assms F nodump by (auto split: if_splits option.splits)
  have cfg: "config self' = config (snd u)"
    using self' by simp
  have fields: "data self' = Some d" "trainer self' = Some t" "nn_model self' = Some m"
    "cv_pred self' = Some (unscale (cv_pred_of env m))"
    using self' du by simp_all
  have t': "t = Trainer env ((''save_path'', of_opt_str (save_path self)) # config self')"
    unfolding cfg by (rule t_def)
  have m': "m = run env (NNModel env d t (config self'))"
    unfolding cfg by (rule m_def)
  from fields d_def t' m' unscale_def tr show ?thesis
    by blast
qed

theorem fit_inverse_transform_witness:
  "fit env0 train0 () = (fst (fit env0 train0 ()), Inr (projr (snd (fit env0 train0 ())))) \<and>
   target_scaler hub0 = Some (map (\<lambda>x. 2 * x)) \<and>
   cv_pred (projr (snd (fit env0 train0 ()))) = Some (map (\<lambda>x. 2 * x) [1, 0, 1]) \<and>
   Joblib_dump (sum_list (map (\<lambda>x. 2 * x) [1, 1, 0]) + sum_list (map (\<lambda>x. 2 * x) [1, 0, 1]))
     ''./exp/threshold.dat'' \<in> set (fst (fit env0 train0 ())) \<and>
   fit env0_unscaled train0 () =
     (fst (fit env0_unscaled train0 ()), Inr (projr (snd (fit env0_unscaled train0 ())))) \<and>
   cv_pred (projr (snd (fit env0_unscaled train0 ()))) = Some [1, 0, 1] \<and>
   Joblib_dump (sum_list [1, 1, 0] + sum_list [1, 0, 1]) ''./exp/threshold.dat''
     \<in> set (fst (fit env0_unscaled train0 ()))"
proof -
  have dumped: "Joblib_dump 8 ''./exp/threshold.dat'' \<in> set (fst (fit env0 train0 ()))"
    "Joblib_dump 4 ''./exp/threshold.dat'' \<in> set (fst (fit env0_unscaled train0 ()))"
    by code_simp+
  from fit_inverse_transform [OF fit0_completes(1)] fit_inverse_transform [OF fit0_completes(2)]
    fit0_completes(1,2) dumped
  show ?thesis
    by (simp add: env0_def env0_unscaled_def hub0_def)
qed

section \<open>Properties of MolDataset and UniMolRepr\<close>

text \<open>
  C3. For every string \<open>name\<close> passed as \<open>model_name\<close>: if \<open>name\<close> is neither
  \<^verbatim>\<open>'unimolv1'\<close> nor \<^verbatim>\<open>'unimolv2'\<close>, constructing \<^verbatim>\<open>UniMolRepr\<close> raises the \<^verbatim>\<open>ValueError\<close>
  naming it; for those two names the construction raises nothing.
\<close>

theorem UniMolRepr_unknown_model:
  assumes "r_model_name p = PyStr name"
  shows "(name \<noteq> ''unimolv1'' \<and> name \<noteq> ''unimolv2'' \<longrightarrow>
            UniMolRepr_init env p = Inl (ValueError (''Unknown model name: '' @ name))) \<and>
         (name = ''unimolv1'' \<or> name = ''unimolv2'' \<longrightarrow> \<not> raises (UniMolRepr_init env p))"
  using assms by (simp add: UniMolRepr_init_def Let_def raises_def)

theorem UniMolRepr_unknown_model_witness:
  "r_model_name (UniMolRepr_defaults \<lparr> r_model_name := PyStr ''unimolv3'' \<rparr>) = PyStr ''unimolv3'' \<and>
   UniMolRepr_init renv0 (UniMolRepr_defaults \<lparr> r_model_name := PyStr ''unimolv3'' \<rparr>)
     = Inl (ValueError ''Unknown model name: unimolv3'') \<and>
   r_model_name UniMolRepr_defaults = PyStr ''unimolv1'' \<and>
   \<not> raises (UniMolRepr_init renv0 UniMolRepr_defaults) \<and>
   \<not> raises (UniMolRepr_init renv0 (UniMolRepr_defaults \<lparr> r_model_name := PyStr ''unimolv2'' \<rparr>))"
  using
    UniMolRepr_unknown_model [of "UniMolRepr_defaults \<lparr> r_model_name := PyStr ''unimolv3'' \<rparr>"
      "''unimolv3''" renv0]
    UniMolRepr_unknown_model [of UniMolRepr_defaults "''unimolv1''" renv0]
    UniMolRepr_unknown_model [of "UniMolRepr_defaults \<lparr> r_model_name := PyStr ''unimolv2'' \<rparr>"
      "''unimolv2''" renv0]
  by (simp add: UniMolRepr_defaults_def)

text \<open>
  C9. The length of a \<^verbatim>\<open>MolDataset\<close> is the length of its data, with or without labels.
  Without labels, an access at an index in range returns the data element at that index
  paired with a zero vector of length 1. With labels, an access at an index in range of
  both returns exactly \<open>(data[i], label[i])\<close>. An index out of the range of the data
  raises \<^verbatim>\<open>IndexError\<close>.
\<close>

theorem MolDataset_items:
  "MolDataset_len (MolDataset_init xs lab) = length xs \<and>
   (in_range xs i \<longrightarrow>
      MolDataset_getitem (MolDataset_init xs None) i = Inr (xs ! py_pos xs i, [0])) \<and>
   (in_range xs i \<and> in_range ys i \<longrightarrow>
      MolDataset_getitem (MolDataset_init xs (Some ys)) i =
        Inr (xs ! py_pos xs i, ys ! py_pos ys i)) \<and>
   (\<not> in_range xs i \<longrightarrow> MolDataset_getitem (MolDataset_init xs lab) i = Inl IndexError)"
proof -
  have "in_range xs i \<Longrightarrow> in_range (replicate (length xs) [0::real]) i"
    by (simp add: in_range_def)
  moreover have "in_range xs i \<Longrightarrow>
      replicate (length xs) [0::real] ! py_pos (replicate (length xs) [0::real]) i = [0]"
    by (auto simp: in_range_def py_pos_def)
  ultimately show ?thesis
    by (simp add: MolDataset_len_def MolDataset_init_def MolDataset_getitem_def py_index_def
          np_zeros_def)
qed

theorem MolDataset_items_witness:
  "MolDataset_len (MolDataset_init [''CCO'', ''C'', ''CN''] None) = 3 \<and>
   in_range [''CCO'', ''C'', ''CN''] 1 \<and>
   MolDataset_getitem (MolDataset_init [''CCO'', ''C'', ''CN''] None) 1 = Inr (''C'', [0]) \<and>
   in_range [''CCO'', ''C'', ''CN''] (- 1) \<and>
   MolDataset_getitem (MolDataset_init [''CCO'', ''C'', ''CN''] None) (- 1) = Inr (''CN'', [0]) \<and>
   in_range [[1], [0], [1::real]] 2 \<and>
   MolDataset_getitem (MolDataset_init [''CCO'', ''C'', ''CN''] (Some [[1], [0], [1]])) 2
     = Inr (''CN'', [1]) \<and>
   \<not> in_range [''CCO'', ''C'', ''CN''] 3 \<and>
   MolDataset_getitem (MolDataset_init [''CCO'', ''C'', ''CN''] None) 3 = Inl IndexError"
proof -
  have r: "in_range [''CCO'', ''C'', ''CN''] 1" "in_range [''CCO'', ''C'', ''CN''] (- 1)"
    "in_range [''CCO'', ''C'', ''CN''] 2" "in_range [[1], [0], [1::real]] 2"
    "\<not> in_range [''CCO'', ''C'', ''CN''] 3"
    by (simp_all add: in_range_def)
  from MolDataset_items [of "[''CCO'', ''C'', ''CN'']" None 1 "[]"]
    MolDataset_items [of "[''CCO'', ''C'', ''CN'']" None "- 1" "[]"]
    MolDataset_items [of "[''CCO'', ''C'', ''CN'']" None 2 "[[1], [0], [1]]"]
    MolDataset_items [of "[''CCO'', ''C'', ''CN'']" None 3 "[]"] r
  show ?thesis
    by (simp add: py_pos_def)
qed

text \<open>
  C10. \<^verbatim>\<open>get_repr\<close> raises \<^verbatim>\<open>ValueError\<close> for every input that is not a str, dict, list or
  numpy array. For a dict the assertion fails unless it has both keys \<^verbatim>\<open>'atoms'\<close> and
  \<^verbatim>\<open>'coordinates'\<close>. For the path of a CSV file the assertion fails unless the file has a
  column named \<^verbatim>\<open>'SMILES'\<close>, whatever the object's parameters hold.
\<close>

theorem get_repr_rejects:
  "(\<not> is_str v \<and> (\<forall>d. v \<noteq> PyDict d) \<and> (\<forall>xs. v \<noteq> PyList xs) \<longrightarrow>
      get_repr env self (Val v) ra rt = Inl (ValueError (''Unknown data type: '' @ type_repr v))) \<and>
   (PyStr ''atoms'' \<notin> set (map fst d) \<or> PyStr ''coordinates'' \<notin> set (map fst d) \<longrightarrow>
      get_repr env self (Val (PyDict d)) ra rt = Inl AssertionError) \<and>
   (PyStr ''atoms'' \<in> set (map fst d) \<and> PyStr ''coordinates'' \<in> set (map fst d) \<longrightarrow>
      \<not> raises (get_repr env self (Val (PyDict d)) ra rt)) \<and>
   (endswith path ''.csv'' \<and> ''SMILES'' \<notin> set (map fst (read_csv env path)) \<longrightarrow>
      get_repr env self (Val (PyStr path)) ra rt = Inl AssertionError) \<and>
   (endswith path ''.csv'' \<and> ''SMILES'' \<in> set (map fst (read_csv env path)) \<longrightarrow>
      \<not> raises (get_repr env self (Val (PyStr path)) ra rt))"
proof -
  have sdf: "endswith path ''.csv'' \<Longrightarrow> \<not> endswith path ''.sdf''"
    by (auto simp: endswith_def)
  have col: "map_of (read_csv env path) ''SMILES'' = None \<longleftrightarrow>
               ''SMILES'' \<notin> set (map fst (read_csv env path))"
    by (simp add: map_of_eq_None_iff)
  have other: "\<not> is_str v \<and> (\<forall>d. v \<noteq> PyDict d) \<and> (\<forall>xs. v \<noteq> PyList xs) \<Longrightarrow>
      get_repr_data env (Val v) = Inl (ValueError (''Unknown data type: '' @ type_repr v))"
    by (cases v) simp_all
  show ?thesis
    using sdf col other
    by (auto simp add: get_repr_def Let_def raises_def split: option.splits)
qed

theorem get_repr_rejects_witness:
  "get_repr renv0 repr0 (Val (PyInt 7)) (PyBool False) (PyBool False)
     = Inl (ValueError ''Unknown data type: <class 'int'>'') \<and>
   get_repr renv0 repr0 (Val PyNone) (PyBool False) (PyBool False)
     = Inl (ValueError ''Unknown data type: <class 'NoneType'>'') \<and>
   get_repr renv0 repr0 (Val (PyDict [(PyStr ''atoms'', PyList [])])) (PyBool False) (PyBool False)
     = Inl AssertionError \<and>
   \<not> raises (get_repr renv0 repr0 (Val conformer0) (PyBool False) (PyBool False)) \<and>
   endswith ''other.csv'' ''.csv'' \<and>
   map fst (read_csv renv0 ''other.csv'') = [''smi''] \<and>
   dict_get (repr_params repr0) ''smiles_col'' = PyStr ''smi'' \<and>
   get_repr renv0 repr0 (Val (PyStr ''other.csv'')) (PyBool False) (PyBool False)
     = Inl AssertionError \<and>
   \<not> raises (get_repr renv0 repr0 (Val (PyStr ''smiles.csv'')) (PyBool False) (PyBool False))"
proof -
  have csv: "endswith ''other.csv'' ''.csv''" "endswith ''smiles.csv'' ''.csv''"
    by (simp_all add: endswith_def)
  have cols: "map fst (read_csv renv0 ''other.csv'') = [''smi'']"
    "map fst (read_csv renv0 ''smiles.csv'') = [''SMILES'']"
    by (simp_all add: renv0_def)
  have col: "dict_get (repr_params repr0) ''smiles_col'' = PyStr ''smi''"
    by (simp add: repr0_def dict_get_def)
  from
    get_repr_rejects [of "PyInt 7" renv0 repr0 "PyBool False" "PyBool False"
      "[(PyStr ''atoms'', PyList [])]" "''other.csv''"]
    get_repr_rejects [of PyNone renv0 repr0 "PyBool False" "PyBool False"
      "[(PyStr ''atoms'', PyList [PyList [PyStr ''C'', PyStr ''C'', PyStr ''O'']]),
        (PyStr ''coordinates'', PyList [PyList
           [PyList [PyInt 0, PyInt 0, PyInt 0], PyList [PyInt 1, PyInt 0, PyInt 0],
            PyList [PyInt 2, PyInt 0, PyInt 0]]])]" "''smiles.csv''"]
    csv cols col
  show ?thesis
    unfolding conformer0_def by simp
qed

end
